theory Spec2Isabelle
  imports Complex_Main "HOL-Library.AList"
begin

section \<open>The Zillow command-line scraper (\<^verbatim>\<open>src/zillow/cli.py\<close>)\<close>

text \<open>
  The program is one Python module: \<^verbatim>\<open>main\<close> parses two positional arguments,
  \<^verbatim>\<open>parse_zillow_pages\<close> launches three browser engines in turn and
  \<^verbatim>\<open>parse\<close> loads cookies, builds a URL, fetches the page five times and extracts
  listing records from the rendered markup.

  Python strings are modelled as \<^typ>\<open>string\<close>; a \<^typ>\<open>char\<close> stands for one code point
  below 256, so the middle dot \<^verbatim>\<open>"\xb7"\<close> of line 108 is the single character
  \<open>CHR 0xB7\<close>.
\<close>

subsection \<open>Values read from the cookie file\<close>

text \<open>
  What \<^verbatim>\<open>json.load\<close> returns: \<^verbatim>\<open>None\<close>, booleans, numbers, strings, lists and
  dictionaries. A dictionary is an association list in insertion order (its keys are
  distinct in Python). Of a float only the test against zero is used.
\<close>

datatype json =
    JNull
  | JBool bool
  | JInt int
  | JFloat real
  | JStr string
  | JArr "json list"
  | JObj "(string \<times> json) list"

text \<open>Python truth value testing, as the operator \<^verbatim>\<open>or\<close> applies it.\<close>

fun truthy :: "json \<Rightarrow> bool" where
  "truthy JNull = False"
| "truthy (JBool b) = b"
| "truthy (JInt n) = (n \<noteq> 0)"
| "truthy (JFloat x) = (x \<noteq> 0)"
| "truthy (JStr s) = (s \<noteq> [])"
| "truthy (JArr xs) = (xs \<noteq> [])"
| "truthy (JObj d) = (d \<noteq> [])"

text \<open>\<^verbatim>\<open>a or b\<close>: the left operand when it is truthy, the right operand otherwise.\<close>

definition py_or :: "json \<Rightarrow> json \<Rightarrow> json" where
  "py_or a b = (if truthy a then a else b)"

text \<open>\<^verbatim>\<open>d.get(k)\<close>: the value stored under \<open>k\<close>, \<^verbatim>\<open>None\<close> for a missing key.\<close>

definition dict_get :: "(string \<times> json) list \<Rightarrow> string \<Rightarrow> json" where
  "dict_get d k = (case map_of d k of None \<Rightarrow> JNull | Some v \<Rightarrow> v)"

text \<open>
  Line 45: \<^verbatim>\<open>name = cookie.get("name") or cookie.get("domain") or 'other'\<close>.
\<close>

definition cookie_name :: "(string \<times> json) list \<Rightarrow> json" where
  "cookie_name cookie =
     py_or (dict_get cookie ''name'') (py_or (dict_get cookie ''domain'') (JStr ''other''))"

text \<open>Line 46: \<^verbatim>\<open>cookie["name"] = name\<close>.\<close>

definition set_cookie_name :: "(string \<times> json) list \<Rightarrow> (string \<times> json) list" where
  "set_cookie_name cookie = AList.update ''name'' (cookie_name cookie) cookie"

subsection \<open>Paths, the environment and the effects of a run\<close>

text \<open>
  A path is the list of its components; \<^verbatim>\<open>joinpath\<close> appends a component and
  \<^verbatim>\<open>parent\<close> drops the last one.
\<close>

type_synonym path = "string list"

definition joinpath :: "path \<Rightarrow> string \<Rightarrow> path" where
  "joinpath p name = p @ [name]"

definition parent :: "path \<Rightarrow> path" where
  "parent p = butlast p"

datatype engine = Chromium | Firefox | Webkit

text \<open>
  The exceptions of a run. \<open>IOError\<close> is the only one the program catches (line 48).
  \<open>SystemExit\<close> carries the exit status of \<^verbatim>\<open>argparse\<close>.
\<close>

datatype error =
    IOError
  | JSONDecodeError
  | AttributeError
  | NameError
  | BrowserError
  | SystemExit nat

text \<open>
  The argument that \<^verbatim>\<open>page.goto(url)\<close> receives. The variable \<^verbatim>\<open>url\<close> holds the
  string built at lines 53 to 61 until line 100 assigns the list of \<^verbatim>\<open>href\<close> values
  of a container to the same variable.
\<close>

datatype goto_arg = UrlStr string | UrlList "string list"

text \<open>
  A listing container, as the XPath queries of lines 81 to 101 and 112 see it: each field
  is the list of strings the query returns, \<open>is_for_sale\<close> the number of elements that
  line 112 matches. A node that is no \<^verbatim>\<open>HtmlElement\<close> is skipped at line 78.
\<close>

record container =
  raw_address :: "string list"
  raw_city :: "string list"
  raw_state :: "string list"
  raw_postal_code :: "string list"
  raw_price :: "string list"
  raw_info :: "string list"
  raw_broker_name :: "string list"
  hrefs :: "string list"
  raw_title :: "string list"
  is_for_sale :: nat

datatype node = Element container | Other

text \<open>
  A rendered page: the markup \<^verbatim>\<open>page.content()\<close> returns and the nodes that
  \<^verbatim>\<open>//div[@id='search-results']//article\<close> selects in it (line 75).
\<close>

record page =
  page_data :: string
  search_results :: "node list"

datatype file_read = Absent | Malformed | Content json

text \<open>
  The environment of a run: the working directory, which paths exist, what opening and
  decoding the cookie file gives, whether an engine launches, and what navigating gives
  in iteration \<open>i\<close> of an engine for the argument passed to \<^verbatim>\<open>goto\<close>
  (\<open>navigate\<close> stands for \<^verbatim>\<open>page.goto\<close> followed by \<^verbatim>\<open>page.content\<close>). The other
  calls into the browser (\<^verbatim>\<open>new_context\<close>, \<^verbatim>\<open>add_cookies\<close>, \<^verbatim>\<open>new_page\<close>,
  \<^verbatim>\<open>screenshot\<close>, \<^verbatim>\<open>close\<close>) and the writing of the CSV file are taken to succeed.
\<close>

record world =
  cwd :: path
  path_exists :: "path \<Rightarrow> bool"
  read_json :: "path \<Rightarrow> file_read"
  launches :: "engine \<Rightarrow> bool"
  navigate :: "engine \<Rightarrow> nat \<Rightarrow> goto_arg \<Rightarrow> error + page"

text \<open>What a run does to the outside, in order.\<close>

datatype event =
    Print string
  | Mkdir path
  | Launch engine
  | Close engine
  | NewContext
  | AddCookies "json list"
  | Goto goto_arg
  | Screenshot string
  | WriteCsv string "string list list"

text \<open>
  A computation either never returns (\<open>None\<close>) or returns the events it produced with
  an exception or a value.
\<close>

type_synonym 'a comp = "(event list \<times> (error + 'a)) option"

definition ret :: "'a \<Rightarrow> 'a comp" where
  "ret x = Some ([], Inr x)"

definition emit :: "event \<Rightarrow> unit comp" where
  "emit e = Some ([e], Inr ())"

definition raise :: "error \<Rightarrow> 'a comp" where
  "raise e = Some ([], Inl e)"

definition bind :: "'a comp \<Rightarrow> ('a \<Rightarrow> 'b comp) \<Rightarrow> 'b comp" where
  "bind m f =
     (case m of
        None \<Rightarrow> None
      | Some (t, Inl e) \<Rightarrow> Some (t, Inl e)
      | Some (t, Inr x) \<Rightarrow>
          (case f x of None \<Rightarrow> None | Some (t', r) \<Rightarrow> Some (t @ t', r)))"

text \<open>\<^verbatim>\<open>try: m finally: c\<close> runs \<open>c\<close> after \<open>m\<close> and keeps the outcome of \<open>m\<close>.\<close>

definition finally_do :: "'a comp \<Rightarrow> unit comp \<Rightarrow> 'a comp" where
  "finally_do m c =
     (case m of
        None \<Rightarrow> None
      | Some (t, r) \<Rightarrow>
          (case c of
             None \<Rightarrow> None
           | Some (t', Inl e) \<Rightarrow> Some (t @ t', Inl e)
           | Some (t', Inr u) \<Rightarrow> Some (t @ t', r)))"

subsection \<open>The search for the project marker (lines 29 to 34)\<close>

text \<open>
  \<^verbatim>\<open>
  root = pathlib.Path().cwd()
  pyproject = None
  while root is not None:
      pyproject = root.joinpath("pyproject.toml")
      if pyproject.exists():
          root = None
  \<close>
  The loop state is the pair of \<^verbatim>\<open>root\<close> (here \<open>root_path\<close>) and
  \<^verbatim>\<open>pyproject\<close>; the result is the value of \<^verbatim>\<open>pyproject\<close> when the loop ends,
  and \<open>None\<close> when it does not end.
\<close>

partial_function (option) find_marker ::
  "(path \<Rightarrow> bool) \<Rightarrow> path option \<Rightarrow> path option \<Rightarrow> path option option" where
  "find_marker ex root_path pyproject =
     (case root_path of
        None \<Rightarrow> Some pyproject
      | Some r \<Rightarrow>
          (if ex (joinpath r ''pyproject.toml'')
           then find_marker ex None (Some (joinpath r ''pyproject.toml''))
           else find_marker ex (Some r) (Some (joinpath r ''pyproject.toml''))))"

declare find_marker.simps [code]

subsection \<open>Cookie loading (lines 36 to 51)\<close>

text \<open>
  \<^verbatim>\<open>SetCookieParam\<close> is imported at line 14 under \<^verbatim>\<open>if TYPE_CHECKING:\<close>, which is
  false when the program runs, so the call at line 47 finds no such name.
\<close>

definition SetCookieParam :: "(string \<times> json) list \<Rightarrow> json comp" where
  "SetCookieParam cookie = raise NameError"

text \<open>
  The loop of lines 44 to 47 over the entries of the list. An entry that is no dictionary
  has no \<^verbatim>\<open>get\<close>.
\<close>

fun load_entries :: "json list \<Rightarrow> json list \<Rightarrow> json list comp" where
  "load_entries [] cookie_data_list = ret cookie_data_list"
| "load_entries (JObj cookie # rest) cookie_data_list =
     bind (SetCookieParam (set_cookie_name cookie))
       (\<lambda>c. load_entries rest (cookie_data_list @ [c]))"
| "load_entries (_ # rest) cookie_data_list = raise AttributeError"

definition cookie_message :: string where
  "cookie_message = ''Cookie file not found. Please log in and save the cookies to continue''"

text \<open>
  Lines 36 to 51. \<^verbatim>\<open>mkdir(exist_ok=True, parents=True)\<close> is taken to succeed. A file
  that cannot be opened raises \<^verbatim>\<open>IOError\<close>, which line 48 catches; a file that does
  not decode raises out of \<^verbatim>\<open>json.load\<close>.
\<close>

definition load_cookies :: "world \<Rightarrow> path option \<Rightarrow> json list comp" where
  "load_cookies w pyproject =
     (case pyproject of
        None \<Rightarrow> ret []
      | Some pp \<Rightarrow>
          (let project_intermediate_path = joinpath (parent pp) ''.build'';
               cookies_path = joinpath project_intermediate_path ''cookies.json''
           in bind (emit (Mkdir project_intermediate_path))
                (\<lambda>_. case read_json w cookies_path of
                        Absent \<Rightarrow> bind (emit (Print cookie_message)) (\<lambda>_. ret [])
                      | Malformed \<Rightarrow> raise JSONDecodeError
                      | Content (JArr entries) \<Rightarrow> load_entries entries []
                      | Content _ \<Rightarrow> ret [])))"

subsection \<open>String operations of the extraction\<close>

text \<open>The characters below 256 for which \<^verbatim>\<open>str.isspace\<close> holds.\<close>

definition is_space :: "char \<Rightarrow> bool" where
  "is_space c \<longleftrightarrow>
     c \<in> set [CHR 0x09, CHR 0x0A, CHR 0x0B, CHR 0x0C, CHR 0x0D, CHR 0x1C, CHR 0x1D,
              CHR 0x1E, CHR 0x1F, CHR 0x20, CHR 0x85, CHR 0xA0]"

text \<open>\<^verbatim>\<open>sep.join(xs)\<close>.\<close>

fun py_join :: "string \<Rightarrow> string list \<Rightarrow> string" where
  "py_join sep [] = []"
| "py_join sep [x] = x"
| "py_join sep (x # y # ys) = x @ sep @ py_join sep (y # ys)"

text \<open>
  \<^verbatim>\<open>s.split()\<close>: the maximal runs of characters that are not whitespace; \<open>cur\<close> is the
  run being read.
\<close>

fun split_ws :: "string \<Rightarrow> string \<Rightarrow> string list" where
  "split_ws [] cur = (if cur = [] then [] else [cur])"
| "split_ws (c # cs) cur =
     (if is_space c then (if cur = [] then split_ws cs [] else cur # split_ws cs [])
      else split_ws cs (cur @ [c]))"

definition py_split :: "string \<Rightarrow> string list" where
  "py_split s = split_ws s []"

text \<open>\<^verbatim>\<open>s.strip()\<close>.\<close>

definition py_strip :: "string \<Rightarrow> string" where
  "py_strip s = rev (dropWhile is_space (rev (dropWhile is_space s)))"

text \<open>\<^verbatim>\<open>s.replace("\xb7", ",")\<close>.\<close>

definition replace_middle_dot :: "string \<Rightarrow> string" where
  "replace_middle_dot s = map (\<lambda>c. if c = CHR 0xB7 then CHR '','' else c) s"

text \<open>The decimal digits of a number, as an f-string formats it.\<close>

fun string_of_nat :: "nat \<Rightarrow> string" where
  "string_of_nat n =
     (if n < 10 then [char_of (48 + n)]
      else string_of_nat (n div 10) @ [char_of (48 + n mod 10)])"

subsection \<open>Extraction of one container (lines 103 to 123)\<close>

text \<open>\<^verbatim>\<open>" ".join(" ".join(xs).split())\<close>.\<close>

definition collapse :: "string list \<Rightarrow> string" where
  "collapse xs = py_join '' '' (py_split (py_join '' '' xs))"

text \<open>\<^verbatim>\<open>"".join(xs).strip() if xs else None\<close>.\<close>

definition stripped :: "string list \<Rightarrow> string option" where
  "stripped xs = (if xs \<noteq> [] then Some (py_strip (py_join [] xs)) else None)"

text \<open>Line 111: \<^verbatim>\<open>"https://www.zillow.com" + url[0] if url else None\<close>.\<close>

definition property_url :: "string list \<Rightarrow> string option" where
  "property_url url =
     (case url of [] \<Rightarrow> None | h # _ \<Rightarrow> Some (''https://www.zillow.com'' @ h))"

text \<open>
  The dictionary of lines 113 to 123, in the order of its keys; \<open>None\<close> is Python's
  \<^verbatim>\<open>None\<close>.
\<close>

type_synonym listing = "(string \<times> string option) list"

definition make_record :: "container \<Rightarrow> listing" where
  "make_record c =
     [(''address'', if raw_address c \<noteq> [] then Some (collapse (raw_address c)) else None),
      (''city'', stripped (raw_city c)),
      (''state'', stripped (raw_state c)),
      (''postal_code'', stripped (raw_postal_code c)),
      (''price'', stripped (raw_price c)),
      (''facts and features'', Some (replace_middle_dot (collapse (raw_info c)))),
      (''real estate provider'', stripped (raw_broker_name c)),
      (''url'', property_url (hrefs c)),
      (''title'', if raw_title c \<noteq> [] then Some (py_join [] (raw_title c)) else None)]"

text \<open>
  The loop of lines 77 to 125 over the containers of one page. Its state is the variable
  \<^verbatim>\<open>url\<close>, which line 100 overwrites, and \<^verbatim>\<open>properties_list\<close>.
\<close>

fun extract_loop :: "node list \<Rightarrow> goto_arg \<Rightarrow> listing list \<Rightarrow> goto_arg \<times> listing list" where
  "extract_loop [] url properties_list = (url, properties_list)"
| "extract_loop (Other # rest) url properties_list = extract_loop rest url properties_list"
| "extract_loop (Element c # rest) url properties_list =
     (if is_for_sale c \<noteq> 0
      then extract_loop rest (UrlList (hrefs c)) (properties_list @ [make_record c])
      else extract_loop rest (UrlList (hrefs c)) properties_list)"

subsection \<open>URL construction (lines 53 to 61) and the fetch loop (lines 63 to 127)\<close>

record InputData =
  zip_code :: string
  sort_order :: string

definition build_url :: "InputData \<Rightarrow> string option \<Rightarrow> string" where
  "build_url input_data filter_request =
     (if filter_request = Some ''newest''
      then ''https://www.zillow.com/homes/for_sale/'' @ zip_code input_data
             @ ''/0_singlestory/days_sort''
      else if filter_request = Some ''cheapest''
      then ''https://www.zillow.com/homes/for_sale/'' @ zip_code input_data
             @ ''/0_singlestory/pricea_sort/''
      else ''https://www.zillow.com/homes/for_sale/'' @ zip_code input_data
             @ ''_rb/?fromHomePage=true''
             @ ''&shouldFireSellPageImplicitClaimGA=false&fromHomePageTab=buy '')"

text \<open>\<^verbatim>\<open>page.goto(url)\<close> followed by \<^verbatim>\<open>page.content()\<close>.\<close>

definition goto :: "world \<Rightarrow> engine \<Rightarrow> nat \<Rightarrow> goto_arg \<Rightarrow> page comp" where
  "goto w browser i url =
     bind (emit (Goto url))
       (\<lambda>_. case navigate w browser i url of Inl e \<Rightarrow> raise e | Inr p \<Rightarrow> ret p)"

definition screenshot_name :: "nat \<Rightarrow> string" where
  "screenshot_name i = ''example-'' @ string_of_nat i @ ''.png''"

text \<open>
  The loop \<^verbatim>\<open>for i in range(5)\<close> of lines 64 to 125, over the values of \<open>i\<close> still to
  come, with the variables \<^verbatim>\<open>url\<close> and \<^verbatim>\<open>properties_list\<close> as its state.
\<close>

fun fetch_loop ::
  "world \<Rightarrow> engine \<Rightarrow> InputData \<Rightarrow> json list \<Rightarrow> nat list \<Rightarrow> goto_arg \<Rightarrow> listing list
     \<Rightarrow> listing list comp" where
  "fetch_loop w browser input_data cookie_data_list [] url properties_list =
     ret properties_list"
| "fetch_loop w browser input_data cookie_data_list (i # rest) url properties_list =
     bind (emit NewContext) (\<lambda>_.
     bind (emit (AddCookies cookie_data_list)) (\<lambda>_.
     bind (goto w browser i url) (\<lambda>pg.
     bind (emit (Screenshot (screenshot_name i))) (\<lambda>_.
     bind (emit (Print (''Fetching data for '' @ zip_code input_data))) (\<lambda>_.
     bind (emit (Print (page_data pg))) (\<lambda>_.
       case extract_loop (search_results pg) url properties_list of
         (url', properties_list') \<Rightarrow>
           fetch_loop w browser input_data cookie_data_list rest url' properties_list'))))))"

text \<open>The function \<^verbatim>\<open>parse\<close> (lines 23 to 127).\<close>

definition parse :: "world \<Rightarrow> engine \<Rightarrow> InputData \<Rightarrow> string option \<Rightarrow> listing list comp" where
  "parse w browser input_data filter_request =
     bind (case find_marker (path_exists w) (Some (cwd w)) None of
             None \<Rightarrow> None
           | Some pyproject \<Rightarrow> ret pyproject) (\<lambda>pyproject.
     bind (load_cookies w pyproject) (\<lambda>cookie_data_list.
       fetch_loop w browser input_data cookie_data_list [0..<5]
         (UrlStr (build_url input_data filter_request)) []))"

subsection \<open>Serialization and the loop over the engines (lines 130 to 154)\<close>

definition fieldnames :: "string list" where
  "fieldnames =
     [''title'', ''address'', ''city'', ''state'', ''postal_code'', ''price'',
      ''facts and features'', ''real estate provider'', ''url'']"

text \<open>
  \<^verbatim>\<open>writer.writerow(row)\<close>: the cells of a row in the order of \<open>fieldnames\<close>; a
  missing key and \<^verbatim>\<open>None\<close> give the empty cell.
\<close>

definition writerow :: "listing \<Rightarrow> string list" where
  "writerow row =
     map (\<lambda>k. case map_of row k of Some (Some v) \<Rightarrow> v | _ \<Rightarrow> []) fieldnames"

definition csv_name :: "InputData \<Rightarrow> string" where
  "csv_name input_data = ''properties-'' @ zip_code input_data @ ''.csv''"

text \<open>
  Lines 137 to 152: the file is opened with mode \<^verbatim>\<open>"wb"\<close>, so what it holds
  afterwards is the header and the rows of this call alone.
\<close>

definition write_csv :: "InputData \<Rightarrow> listing list \<Rightarrow> unit comp" where
  "write_csv input_data scraped_data =
     emit (WriteCsv (csv_name input_data) (fieldnames # map writerow scraped_data))"

definition launch :: "world \<Rightarrow> engine \<Rightarrow> unit comp" where
  "launch w browser_type =
     (if launches w browser_type then emit (Launch browser_type) else raise BrowserError)"

text \<open>
  The loop of lines 132 to 154. Line 135 calls \<^verbatim>\<open>parse(browser, input_data)\<close>, so
  \<^verbatim>\<open>filter_request\<close> takes its default \<^verbatim>\<open>None\<close>.
\<close>

fun engines_loop :: "world \<Rightarrow> InputData \<Rightarrow> engine list \<Rightarrow> unit comp" where
  "engines_loop w input_data [] = ret ()"
| "engines_loop w input_data (browser_type # rest) =
     bind (launch w browser_type) (\<lambda>_.
     bind (finally_do
             (bind (parse w browser_type input_data None) (\<lambda>scraped_data.
              bind (emit (Print ''Writing data to output file'')) (\<lambda>_.
                write_csv input_data scraped_data)))
             (emit (Close browser_type))) (\<lambda>_.
       engines_loop w input_data rest))"

definition parse_zillow_pages :: "world \<Rightarrow> InputData \<Rightarrow> unit comp" where
  "parse_zillow_pages w input_data = engines_loop w input_data [Chromium, Firefox, Webkit]"

subsection \<open>The command line (lines 157 to 177)\<close>

text \<open>
  The parser has the positional \<^verbatim>\<open>zipcode\<close> and the positional \<^verbatim>\<open>sort\<close> with
  \<^verbatim>\<open>nargs="?"\<close>, \<^verbatim>\<open>default="homes for you"\<close> and
  \<^verbatim>\<open>choices=["newest", "cheapest"]\<close>. The model covers argument vectors of positional
  tokens (none begins with \<^verbatim>\<open>-\<close>). \<^verbatim>\<open>argparse\<close> (CPython 3.11,
  \<^verbatim>\<open>ArgumentParser._get_values\<close>) passes the value of a positional through
  \<^verbatim>\<open>_check_value\<close>, and does so too for the string default of an absent
  \<^verbatim>\<open>nargs="?"\<close> positional; an error exits with status 2.
\<close>

definition choices :: "string list" where
  "choices = [''newest'', ''cheapest'']"

definition sort_default :: string where
  "sort_default = ''homes for you''"

definition check_value :: "string \<Rightarrow> string comp" where
  "check_value v = (if v \<in> set choices then ret v else raise (SystemExit 2))"

definition parse_args :: "string list \<Rightarrow> InputData comp" where
  "parse_args argv =
     (case argv of
        [] \<Rightarrow> raise (SystemExit 2)
      | [z] \<Rightarrow>
          bind (check_value sort_default) (\<lambda>s. ret \<lparr>zip_code = z, sort_order = s\<rparr>)
      | [z, v] \<Rightarrow>
          bind (check_value v) (\<lambda>s. ret \<lparr>zip_code = z, sort_order = s\<rparr>)
      | _ \<Rightarrow> raise (SystemExit 2))"

definition main :: "world \<Rightarrow> string list \<Rightarrow> unit comp" where
  "main w argv = bind (parse_args argv) (\<lambda>data. parse_zillow_pages w data)"

subsection \<open>Notions used to state the properties\<close>

text \<open>The records of the containers of one page that carry the for-sale marker.\<close>

fun for_sale_records :: "node list \<Rightarrow> listing list" where
  "for_sale_records [] = []"
| "for_sale_records (Other # rest) = for_sale_records rest"
| "for_sale_records (Element c # rest) =
     (if is_for_sale c \<noteq> 0 then make_record c # for_sale_records rest
      else for_sale_records rest)"

text \<open>What the file \<open>name\<close> holds after the events \<open>t\<close>: the rows of its last write.\<close>

fun csv_after :: "event list \<Rightarrow> string \<Rightarrow> string list list option" where
  "csv_after [] name = None"
| "csv_after (e # es) name =
     (case csv_after es name of
        Some rows \<Rightarrow> Some rows
      | None \<Rightarrow>
          (case e of
             WriteCsv n rows \<Rightarrow> if n = name then Some rows else None
           | _ \<Rightarrow> None))"

text \<open>The events that write to the file system.\<close>

fun is_write :: "event \<Rightarrow> bool" where
  "is_write (Mkdir p) = True"
| "is_write (Screenshot n) = True"
| "is_write (WriteCsv n rows) = True"
| "is_write _ = False"

fun is_goto :: "event \<Rightarrow> bool" where
  "is_goto (Goto u) = True"
| "is_goto _ = False"

text \<open>
  Resolution of a link against the site's origin, in the words of the specification: a
  link that is already absolute stays as it is, a relative one is appended to the origin.
\<close>

definition is_absolute_url :: "string \<Rightarrow> bool" where
  "is_absolute_url h \<longleftrightarrow> take 7 h = ''http://'' \<or> take 8 h = ''https://''"

definition spec_resolve_url :: "string \<Rightarrow> string" where
  "spec_resolve_url h = (if is_absolute_url h then h else ''https://www.zillow.com'' @ h)"

text \<open>The rows of a file written from the records \<open>rs\<close>.\<close>

definition csv_of :: "listing list \<Rightarrow> string list list" where
  "csv_of rs = fieldnames # map writerow rs"

text \<open>What \<^verbatim>\<open>parse\<close> returns for an engine, when it returns a list.\<close>

definition scraped :: "world \<Rightarrow> engine \<Rightarrow> InputData \<Rightarrow> listing list option" where
  "scraped w b input_data =
     (case parse w b input_data None of Some (t, Inr rs) \<Rightarrow> Some rs | _ \<Rightarrow> None)"

text \<open>The records of all passes of a run: those of the three engines, in order.\<close>

definition all_scraped :: "world \<Rightarrow> InputData \<Rightarrow> listing list option" where
  "all_scraped w input_data =
     (case scraped w Chromium input_data of
        None \<Rightarrow> None
      | Some a \<Rightarrow>
          (case scraped w Firefox input_data of
             None \<Rightarrow> None
           | Some b \<Rightarrow>
               (case scraped w Webkit input_data of
                  None \<Rightarrow> None
                | Some c \<Rightarrow> Some (a @ b @ c))))"

text \<open>What the CSV file holds after a complete run.\<close>

definition final_csv :: "world \<Rightarrow> InputData \<Rightarrow> string list list option" where
  "final_csv w input_data =
     (case parse_zillow_pages w input_data of
        Some (t, Inr u) \<Rightarrow> csv_after t (csv_name input_data)
      | _ \<Rightarrow> None)"

text \<open>The arguments of the navigations of a run, in order.\<close>

definition navigations :: "unit comp \<Rightarrow> event list option" where
  "navigations m = (case m of None \<Rightarrow> None | Some (t, r) \<Rightarrow> Some (filter is_goto t))"

subsection \<open>Sample inputs\<close>

definition listing_a :: container where
  "listing_a =
     \<lparr>raw_address = [''12 Main'', '' St  ''], raw_city = ['' Beverly Hills''],
      raw_state = [''CA''], raw_postal_code = [''90210''], raw_price = [''$1,000,000''],
      raw_info = [''3 bds '' @ [CHR 0xB7], '' 2 ba''], raw_broker_name = [''Acme Realty''],
      hrefs = [''/homedetails/1_zpid/''], raw_title = [''House for sale''],
      is_for_sale = 1\<rparr>"

definition listing_b :: container where
  "listing_b =
     \<lparr>raw_address = [''7 Oak Ave''], raw_city = [''Beverly Hills''],
      raw_state = [''CA''], raw_postal_code = [''90210''], raw_price = [''$750,000''],
      raw_info = [], raw_broker_name = [],
      hrefs = [''/homedetails/2_zpid/''], raw_title = [],
      is_for_sale = 1\<rparr>"

text \<open>A container with every field but no for-sale marker.\<close>

definition listing_sold :: container where
  "listing_sold = listing_a\<lparr>raw_address := [''9 Elm Rd''], is_for_sale := 0\<rparr>"

text \<open>A container whose overlay link is already absolute.\<close>

definition listing_absolute :: container where
  "listing_absolute = listing_b\<lparr>hrefs := [''https://www.zillow.com/homedetails/2_zpid/'']\<rparr>"

definition project_dir :: path where
  "project_dir = [''home'', ''user'', ''zillow'']"

text \<open>
  A run started in the project root, with no cookie file: every engine launches, and a
  page shows listings only in the last iteration of Chromium and of Webkit. Navigation
  to anything but a string fails.
\<close>

definition sample_world :: world where
  "sample_world =
     \<lparr>cwd = project_dir,
      path_exists = (\<lambda>p. p = joinpath project_dir ''pyproject.toml''),
      read_json = (\<lambda>p. Absent),
      launches = (\<lambda>b. True),
      navigate = (\<lambda>b i u.
        case u of
          UrlList hs \<Rightarrow> Inl BrowserError
        | UrlStr s \<Rightarrow>
            Inr \<lparr>page_data = ''<html></html>'',
                 search_results =
                   (if i = 4 \<and> b = Chromium then [Element listing_a]
                    else if i = 4 \<and> b = Webkit
                    then [Other, Element listing_sold, Element listing_b]
                    else [])\<rparr>)\<rparr>"

text \<open>The same run started in a subdirectory of the project root.\<close>

definition nested_world :: world where
  "nested_world = sample_world\<lparr>cwd := joinpath project_dir ''src''\<rparr>"

definition sample_input :: InputData where
  "sample_input = \<lparr>zip_code = ''90210'', sort_order = ''newest''\<rparr>"

text \<open>
  A cookie file with one entry, whose \<^verbatim>\<open>"name"\<close> is the empty string, and the sample run
  with that file under \<^verbatim>\<open>.build\<close>.
\<close>

definition falsy_name_cookie :: "(string \<times> json) list" where
  "falsy_name_cookie =
     [(''name'', JStr []), (''domain'', JStr ''.zillow.com''), (''value'', JStr ''abc'')]"

definition cookie_world :: world where
  "cookie_world = sample_world\<lparr>read_json := (\<lambda>p. Content (JArr [JObj falsy_name_cookie]))\<rparr>"

section \<open>Properties\<close>

subsection \<open>Computations and the fetch loop\<close>


lemma bind_ret: "bind (ret x) f = f x"
  by (simp add: bind_def ret_def split: option.splits)

lemma bind_raise: "bind (raise e) f = raise e"
  by (simp add: bind_def raise_def)

lemma bind_emit:
  "bind (emit e) f = (case f () of None \<Rightarrow> None | Some (t, r) \<Rightarrow> Some (e # t, r))"
  by (simp add: bind_def emit_def split: option.splits)

lemma bind_Some_Inr:
  "bind (Some (t, Inr x)) f = (case f x of None \<Rightarrow> None | Some (t', r) \<Rightarrow> Some (t @ t', r))"
  by (simp add: bind_def)

lemma bind_Some_Inl: "bind (Some (t, Inl e)) f = Some (t, Inl e)"
  by (simp add: bind_def)

lemma bind_None: "bind None f = None"
  by (simp add: bind_def)

lemma finally_emit:
  "finally_do m (emit e) = (case m of None \<Rightarrow> None | Some (t, r) \<Rightarrow> Some (t @ [e], r))"
  by (simp add: finally_do_def emit_def split: option.splits)

lemma goto_cases:
  "goto w b i url =
     (case navigate w b i url of
        Inl e \<Rightarrow> Some ([Goto url], Inl e)
      | Inr p \<Rightarrow> Some ([Goto url], Inr p))"
  by (simp add: goto_def bind_emit raise_def ret_def split: sum.splits)

lemma fetch_loop_Nil: "fetch_loop w b inp cs [] url props = Some ([], Inr props)"
  by (simp add: ret_def)

lemma fetch_loop_Cons:
  "fetch_loop w b inp cs (i # rest) url props =
     (case navigate w b i url of
        Inl e \<Rightarrow> Some ([NewContext, AddCookies cs, Goto url], Inl e)
      | Inr pg \<Rightarrow>
          (case fetch_loop w b inp cs rest
                  (fst (extract_loop (search_results pg) url props))
                  (snd (extract_loop (search_results pg) url props)) of
             None \<Rightarrow> None
           | Some (t, r) \<Rightarrow>
               Some ([NewContext, AddCookies cs, Goto url, Screenshot (screenshot_name i),
                      Print (''Fetching data for '' @ zip_code inp), Print (page_data pg)] @ t,
                     r)))"
  by (simp add: bind_emit goto_cases bind_Some_Inr bind_Some_Inl
           split: sum.splits option.splits prod.splits)

declare fetch_loop.simps [simp del]

lemma fetch_loop_total: "\<exists>t r. fetch_loop w b inp cs is url props = Some (t, r)"
proof (induction "is" arbitrary: url props)
  case Nil
  show ?case by (simp add: fetch_loop_Nil)
next
  case (Cons i rest)
  show ?case
  proof (cases "navigate w b i url")
    case (Inl e)
    then show ?thesis by (simp add: fetch_loop_Cons)
  next
    case (Inr pg)
    from Cons [of "fst (extract_loop (search_results pg) url props)"
                  "snd (extract_loop (search_results pg) url props)"]
    obtain t r where "fetch_loop w b inp cs rest
                  (fst (extract_loop (search_results pg) url props))
                  (snd (extract_loop (search_results pg) url props)) = Some (t, r)"
      by blast
    with Inr show ?thesis by (simp add: fetch_loop_Cons)
  qed
qed

lemma fetch_loop_events:
  "fetch_loop w b inp cs is url props = Some (t, r) \<Longrightarrow> e \<in> set t \<Longrightarrow>
     e = NewContext \<or> e = AddCookies cs \<or> (\<exists>u. e = Goto u)
     \<or> (\<exists>i \<in> set is. e = Screenshot (screenshot_name i)) \<or> (\<exists>s. e = Print s)"
proof (induction "is" arbitrary: url props t)
  case Nil
  then show ?case by (simp add: fetch_loop_Nil)
next
  case (Cons i rest)
  show ?case
  proof (cases "navigate w b i url")
    case (Inl err)
    with Cons.prems show ?thesis by (auto simp: fetch_loop_Cons)
  next
    case (Inr pg)
    with Cons.prems obtain t' where
      rec: "fetch_loop w b inp cs rest
                  (fst (extract_loop (search_results pg) url props))
                  (snd (extract_loop (search_results pg) url props)) = Some (t', r)"
      and t: "t = [NewContext, AddCookies cs, Goto url, Screenshot (screenshot_name i),
                      Print (''Fetching data for '' @ zip_code inp), Print (page_data pg)] @ t'"
      by (auto simp: fetch_loop_Cons split: option.splits)
    from Cons.prems(2) t consider
      "e \<in> set [NewContext, AddCookies cs, Goto url, Screenshot (screenshot_name i),
                      Print (''Fetching data for '' @ zip_code inp), Print (page_data pg)]"
      | "e \<in> set t'" by auto
    then show ?thesis
    proof cases
      case 1
      then show ?thesis by auto
    next
      case 2
      from Cons.IH [OF rec 2] show ?thesis by auto
    qed
  qed
qed

lemma snd_extract_loop:
  "snd (extract_loop ns url props) = props @ for_sale_records ns"
  by (induction ns url props rule: extract_loop.induct) simp_all

lemma for_sale_records_append:
  "for_sale_records (xs @ ys) = for_sale_records xs @ for_sale_records ys"
  by (induction xs rule: for_sale_records.induct) simp_all

lemma fetch_loop_result:
  "fetch_loop w b inp cs is url props = Some (t, Inr rs) \<Longrightarrow>
     \<exists>pages. length pages = length is
       \<and> rs = props @ concat (map (\<lambda>p. for_sale_records (search_results p)) pages)
       \<and> (\<forall>j < length is. \<exists>u. navigate w b (is ! j) u = Inr (pages ! j))"
proof (induction "is" arbitrary: url props t)
  case Nil
  then show ?case by (simp add: fetch_loop_Nil)
next
  case (Cons i rest)
  show ?case
  proof (cases "navigate w b i url")
    case (Inl err)
    with Cons.prems show ?thesis by (simp add: fetch_loop_Cons)
  next
    case (Inr pg)
    with Cons.prems obtain t' where
      rec: "fetch_loop w b inp cs rest
                  (fst (extract_loop (search_results pg) url props))
                  (snd (extract_loop (search_results pg) url props)) = Some (t', Inr rs)"
      by (auto simp: fetch_loop_Cons split: option.splits)
    from Cons.IH [OF rec] obtain pages where
      len: "length pages = length rest"
      and rs: "rs = snd (extract_loop (search_results pg) url props)
                 @ concat (map (\<lambda>p. for_sale_records (search_results p)) pages)"
      and nav: "\<forall>j < length rest. \<exists>u. navigate w b (rest ! j) u = Inr (pages ! j)"
      by blast
    have "\<forall>j < length (i # rest). \<exists>u. navigate w b ((i # rest) ! j) u = Inr ((pg # pages) ! j)"
    proof (intro allI impI)
      fix j assume "j < length (i # rest)"
      then show "\<exists>u. navigate w b ((i # rest) ! j) u = Inr ((pg # pages) ! j)"
        using Inr nav by (cases j) auto
    qed
    moreover have "length (pg # pages) = length (i # rest)" using len by simp
    moreover have "rs = props @ concat (map (\<lambda>p. for_sale_records (search_results p)) (pg # pages))"
      using rs by (simp add: snd_extract_loop)
    ultimately show ?thesis by blast
  qed
qed

subsection \<open>Cookie names\<close>

lemma not_truthy_or: "\<not> truthy a \<Longrightarrow> py_or a b = b"
  by (simp add: py_or_def)

lemma map_of_update_name: "map_of (set_cookie_name cookie) ''name'' = Some (cookie_name cookie)"
  by (simp add: set_cookie_name_def update_conv')

lemma dict_get_delete: "k \<noteq> k' \<Longrightarrow> dict_get (AList.delete k cookie) k' = dict_get cookie k'"
  by (simp add: dict_get_def delete_conv')

lemma dict_get_delete_same: "dict_get (AList.delete k cookie) k = JNull"
  by (simp add: dict_get_def delete_conv')

text \<open>
  Lines 45 and 46 alone: for an entry whose \<^verbatim>\<open>"name"\<close> is present but falsy, the name
  they store is the one they store without the \<^verbatim>\<open>"name"\<close>: the \<^verbatim>\<open>"domain"\<close> value,
  or \<^verbatim>\<open>'other'\<close> when the domain is missing or falsy as well.
\<close>

theorem falsy_name_falls_back:
  assumes "map_of cookie ''name'' = Some v" and "\<not> truthy v"
  shows "map_of (set_cookie_name cookie) ''name''
           = map_of (set_cookie_name (AList.delete ''name'' cookie)) ''name''
       \<and> map_of (set_cookie_name cookie) ''name''
           = Some (case map_of cookie ''domain'' of
                     None \<Rightarrow> JStr ''other''
                   | Some d \<Rightarrow> if truthy d then d else JStr ''other'')"
proof -
  from assms have n: "\<not> truthy (dict_get cookie ''name'')"
    by (simp add: dict_get_def)
  have a: "cookie_name cookie = py_or (dict_get cookie ''domain'') (JStr ''other'')"
    using n by (simp add: cookie_name_def not_truthy_or)
  have b: "cookie_name (AList.delete ''name'' cookie)
             = py_or (dict_get cookie ''domain'') (JStr ''other'')"
    by (simp add: cookie_name_def dict_get_delete dict_get_delete_same not_truthy_or)
  have c: "py_or (dict_get cookie ''domain'') (JStr ''other'')
             = (case map_of cookie ''domain'' of
                  None \<Rightarrow> JStr ''other''
                | Some d \<Rightarrow> if truthy d then d else JStr ''other'')"
    by (simp add: py_or_def dict_get_def split: option.splits)
  show ?thesis
    by (simp only: map_of_update_name a b c)
qed

theorem falsy_name_falls_back_witness:
  "map_of [(''name'', JStr []), (''domain'', JStr ''.zillow.com'')] ''name'' = Some (JStr [])
   \<and> \<not> truthy (JStr [])
   \<and> map_of (set_cookie_name [(''name'', JStr []), (''domain'', JStr ''.zillow.com'')]) ''name''
        = Some (JStr ''.zillow.com'')"
proof -
  have h1: "map_of [(''name'', JStr []), (''domain'', JStr ''.zillow.com'')] ''name'' = Some (JStr [])"
    by simp
  have h2: "\<not> truthy (JStr [])"
    by simp
  show ?thesis
    using falsy_name_falls_back [OF h1 h2, THEN conjunct2] by simp
qed


text \<open>
  C6, as the code has it: for an entry with no \<^verbatim>\<open>"name"\<close>, the name stored by lines 45
  and 46 is \<^verbatim>\<open>'other'\<close> when the entry has no \<^verbatim>\<open>"domain"\<close> either, the domain
  value when that value is truthy, and \<^verbatim>\<open>'other'\<close> when the domain value is falsy.
\<close>

theorem absent_name_default:
  assumes "map_of cookie ''name'' = None"
  shows "map_of (set_cookie_name cookie) ''name''
           = Some (case map_of cookie ''domain'' of
                     None \<Rightarrow> JStr ''other''
                   | Some d \<Rightarrow> if truthy d then d else JStr ''other'')"
proof -
  from assms have "dict_get cookie ''name'' = JNull"
    by (simp add: dict_get_def)
  then have "cookie_name cookie = py_or (dict_get cookie ''domain'') (JStr ''other'')"
    by (simp add: cookie_name_def not_truthy_or)
  also have "\<dots> = (case map_of cookie ''domain'' of
                     None \<Rightarrow> JStr ''other''
                   | Some d \<Rightarrow> if truthy d then d else JStr ''other'')"
    by (simp add: py_or_def dict_get_def split: option.splits)
  finally show ?thesis
    by (simp only: map_of_update_name)
qed

theorem absent_name_default_witness:
  "map_of [(''domain'', JStr ''.zillow.com''), (''value'', JStr ''abc'')] ''name'' = None
   \<and> map_of (set_cookie_name [(''domain'', JStr ''.zillow.com''), (''value'', JStr ''abc'')]) ''name''
        = Some (JStr ''.zillow.com'')"
proof -
  have h: "map_of [(''domain'', JStr ''.zillow.com''), (''value'', JStr ''abc'')] ''name'' = None"
    by simp
  show ?thesis
    using absent_name_default [OF h] h by simp
qed

text \<open>
  An entry with the empty string as its \<^verbatim>\<open>"domain"\<close> and no \<^verbatim>\<open>"name"\<close> does not
  get its domain value as name.
\<close>

theorem empty_domain_counterexample:
  "map_of [(''domain'', JStr [])] ''name'' = None
   \<and> map_of [(''domain'', JStr [])] ''domain'' = Some (JStr [])
   \<and> map_of (set_cookie_name [(''domain'', JStr [])]) ''name'' = Some (JStr ''other'')
   \<and> JStr ''other'' \<noteq> JStr []"
  by (simp add: set_cookie_name_def cookie_name_def dict_get_def py_or_def)

subsection \<open>Extraction\<close>

text \<open>
  C8, as the code has it: the \<^verbatim>\<open>url\<close> field of a record is \<^verbatim>\<open>None\<close> when the
  container has no overlay link, and otherwise the origin \<^verbatim>\<open>https://www.zillow.com\<close>
  followed by the first link, whatever the link is.
\<close>

theorem url_field:
  "map_of (make_record c) ''url''
     = Some (case hrefs c of
               [] \<Rightarrow> None
             | h # rest \<Rightarrow> Some (''https://www.zillow.com'' @ h))"
  by (simp add: make_record_def property_url_def)

text \<open>
  A link that is already absolute gets the origin in front of it as well, which is not
  its resolution against the origin.
\<close>

theorem absolute_link_counterexample:
  "hrefs listing_absolute = [''https://www.zillow.com/homedetails/2_zpid/'']
   \<and> is_absolute_url ''https://www.zillow.com/homedetails/2_zpid/''
   \<and> map_of (make_record listing_absolute) ''url''
        = Some (Some ''https://www.zillow.comhttps://www.zillow.com/homedetails/2_zpid/'')
   \<and> map_of (make_record listing_absolute) ''url''
        \<noteq> Some (Some (spec_resolve_url ''https://www.zillow.com/homedetails/2_zpid/''))"
  by (simp add: make_record_def property_url_def listing_absolute_def listing_b_def
        is_absolute_url_def spec_resolve_url_def)

text \<open>
  C5: a container without a for-sale marker never adds a record to the output list,
  whatever its other fields hold: the list that the loop over the containers of a page
  builds is the one it builds without that container.
\<close>

theorem unmarked_container_contributes_nothing:
  assumes "is_for_sale c = 0"
  shows "snd (extract_loop (before @ Element c # after) url properties_list)
           = snd (extract_loop (before @ after) url' properties_list)"
  using assms by (simp add: snd_extract_loop for_sale_records_append)

theorem unmarked_container_contributes_nothing_witness:
  "is_for_sale listing_sold = 0
   \<and> snd (extract_loop ([Element listing_a] @ Element listing_sold # [Element listing_b])
            (UrlStr ''u'') [])
       = [make_record listing_a, make_record listing_b]"
proof -
  have h: "is_for_sale listing_sold = 0"
    by (simp add: listing_sold_def)
  have "snd (extract_loop ([Element listing_a] @ [Element listing_b]) (UrlStr ''u'') [])
          = [make_record listing_a, make_record listing_b]"
    by (simp add: listing_a_def listing_b_def)
  with unmarked_container_contributes_nothing [OF h, of "[Element listing_a]" "[Element listing_b]" "UrlStr ''u''" "[]" "UrlStr ''u''"] h
  show ?thesis by simp
qed

subsection \<open>The search for the project marker\<close>

lemma find_marker_returns:
  assumes "find_marker ex rp pp = Some y"
  shows "\<forall>r. rp = Some r \<longrightarrow> ex (joinpath r ''pyproject.toml'')"
proof (rule find_marker.raw_induct
         [where P = "\<lambda>ex rp pp y. \<forall>r. rp = Some r \<longrightarrow> ex (joinpath r ''pyproject.toml'')"])
  show "find_marker ex rp pp = Some y" by (rule assms)
next
  fix f :: "(path \<Rightarrow> bool) \<Rightarrow> path option \<Rightarrow> path option \<Rightarrow> path option option"
  fix ex rp pp y
  assume ih: "\<And>ex rp pp y. f ex rp pp = Some y
                 \<Longrightarrow> \<forall>r. rp = Some r \<longrightarrow> ex (joinpath r ''pyproject.toml'')"
  assume step: "(case rp of
                   None \<Rightarrow> Some pp
                 | Some r \<Rightarrow>
                     if ex (joinpath r ''pyproject.toml'')
                     then f ex None (Some (joinpath r ''pyproject.toml''))
                     else f ex (Some r) (Some (joinpath r ''pyproject.toml''))) = Some y"
  show "\<forall>r. rp = Some r \<longrightarrow> ex (joinpath r ''pyproject.toml'')"
  proof (intro allI impI)
    fix r assume r: "rp = Some r"
    show "ex (joinpath r ''pyproject.toml'')"
    proof (rule ccontr)
      assume n: "\<not> ex (joinpath r ''pyproject.toml'')"
      with step r have "f ex (Some r) (Some (joinpath r ''pyproject.toml'')) = Some y"
        by simp
      from ih [OF this] n show False by simp
    qed
  qed
qed

lemma find_marker_found:
  "ex (joinpath r ''pyproject.toml'')
     \<Longrightarrow> find_marker ex (Some r) pp = Some (Some (joinpath r ''pyproject.toml''))"
  by (subst find_marker.simps, simp, subst find_marker.simps, simp)

text \<open>
  C3 fails on the code: when the working directory holds no \<^verbatim>\<open>pyproject.toml\<close> the loop
  of lines 31 to 34 never changes \<^verbatim>\<open>root\<close>, so the search does not end and
  \<^verbatim>\<open>parse\<close> does not return.
\<close>

theorem marker_search_diverges:
  assumes "\<not> path_exists w (joinpath (cwd w) ''pyproject.toml'')"
  shows "find_marker (path_exists w) (Some (cwd w)) None = None
       \<and> parse w browser input_data filter_request = None"
proof -
  have "find_marker (path_exists w) (Some (cwd w)) None = None"
  proof (cases "find_marker (path_exists w) (Some (cwd w)) None")
    case None
    then show ?thesis .
  next
    case (Some y)
    from find_marker_returns [OF Some] assms show ?thesis by simp
  qed
  then show ?thesis
    by (simp add: parse_def bind_None)
qed

theorem marker_search_diverges_witness:
  "\<not> path_exists nested_world (joinpath (cwd nested_world) ''pyproject.toml'')
   \<and> path_exists nested_world (joinpath (parent (cwd nested_world)) ''pyproject.toml'')
   \<and> parse nested_world Chromium sample_input None = None"
proof -
  have h: "\<not> path_exists nested_world (joinpath (cwd nested_world) ''pyproject.toml'')"
    by (simp add: nested_world_def sample_world_def joinpath_def project_dir_def)
  have p: "path_exists nested_world (joinpath (parent (cwd nested_world)) ''pyproject.toml'')"
    by (simp add: nested_world_def sample_world_def joinpath_def project_dir_def parent_def)
  from marker_search_diverges [OF h] h p show ?thesis by simp
qed

subsection \<open>The command line\<close>

lemma parse_args_ok: "parse_args [''90210'', ''newest''] = Some ([], Inr sample_input)"
  by (simp add: parse_args_def check_value_def choices_def ret_def bind_Some_Inr sample_input_def)

lemma no_zipcode_rejected: "parse_args [] = Some ([], Inl (SystemExit 2))"
  by (simp add: parse_args_def raise_def)

lemma unknown_sort_rejected:
  "v \<noteq> ''newest'' \<Longrightarrow> v \<noteq> ''cheapest'' \<Longrightarrow> parse_args [z, v] = Some ([], Inl (SystemExit 2))"
  by (simp add: parse_args_def check_value_def choices_def raise_def bind_Some_Inl)

lemma known_sort_accepted:
  "v = ''newest'' \<or> v = ''cheapest'' \<Longrightarrow>
     parse_args [z, v] = Some ([], Inr \<lparr>zip_code = z, sort_order = v\<rparr>)"
  by (auto simp: parse_args_def check_value_def choices_def ret_def bind_Some_Inr)

text \<open>
  C4 fails on the code: with a zipcode alone the default \<^verbatim>\<open>"homes for you"\<close> of
  \<^verbatim>\<open>sort\<close> is checked against the choices, and the program exits with status 2.
\<close>

theorem zipcode_alone_rejected:
  "parse_args [zipcode] = Some ([], Inl (SystemExit 2))
   \<and> main w [zipcode] = Some ([], Inl (SystemExit 2))"
  by (simp add: main_def parse_args_def check_value_def sort_default_def choices_def
        bind_raise raise_def bind_Some_Inl)

subsection \<open>Cookie loading and the function \<^verbatim>\<open>parse\<close>\<close>

lemma parent_joinpath: "parent (joinpath p n) = p"
  by (simp add: parent_def joinpath_def)

lemma load_entries_cases:
  "load_entries xs acc =
     (case xs of
        [] \<Rightarrow> Some ([], Inr acc)
      | JObj c # rest \<Rightarrow> Some ([], Inl NameError)
      | _ # rest \<Rightarrow> Some ([], Inl AttributeError))"
proof (cases xs)
  case Nil
  then show ?thesis by (simp add: ret_def)
next
  case (Cons x rest)
  then show ?thesis
    by (cases x) (simp_all add: SetCookieParam_def raise_def bind_Some_Inl)
qed

lemma load_entries_result:
  "load_entries xs [] = Some (t, r) \<Longrightarrow> t = [] \<and> (\<forall>cs. r = Inr cs \<longrightarrow> cs = [])"
  by (auto simp: load_entries_cases split: list.splits json.splits)

lemma load_cookies_shape:
  "\<exists>t r. load_cookies w (Some pp) = Some (Mkdir (joinpath (parent pp) ''.build'') # t, r)
         \<and> set t \<subseteq> {Print cookie_message} \<and> (\<forall>cs. r = Inr cs \<longrightarrow> cs = [])"
proof (cases "read_json w (joinpath (joinpath (parent pp) ''.build'') ''cookies.json'')")
  case Absent
  then show ?thesis
    by (simp add: load_cookies_def bind_emit ret_def)
next
  case Malformed
  then show ?thesis
    by (simp add: load_cookies_def bind_emit raise_def)
next
  case (Content j)
  show ?thesis
  proof (cases "\<exists>entries. j = JArr entries")
    case True
    then obtain entries where j: "j = JArr entries" by blast
    obtain t r where l: "load_entries entries [] = Some (t, r)"
      by (cases "load_entries entries []") (auto simp: load_entries_cases split: list.splits json.splits)
    from load_entries_result [OF l] l Content j show ?thesis
      by (simp add: load_cookies_def bind_emit)
  next
    case False
    with Content show ?thesis
      by (cases j) (simp_all add: load_cookies_def bind_emit ret_def)
  qed
qed

lemma load_cookies_absent:
  "read_json w (joinpath (joinpath (parent pp) ''.build'') ''cookies.json'') = Absent \<Longrightarrow>
   load_cookies w (Some pp)
     = Some ([Mkdir (joinpath (parent pp) ''.build''), Print cookie_message], Inr [])"
  by (simp add: load_cookies_def bind_emit ret_def)

lemma parse_found:
  assumes "path_exists w (joinpath (cwd w) ''pyproject.toml'')"
  shows "parse w b inp f =
           bind (load_cookies w (Some (joinpath (cwd w) ''pyproject.toml'')))
             (\<lambda>cookie_data_list.
                fetch_loop w b inp cookie_data_list [0..<5] (UrlStr (build_url inp f)) [])"
  using find_marker_found [of "path_exists w" "cwd w" None, OF assms]
  by (simp add: parse_def bind_ret)

lemma parse_returns_marker:
  assumes "parse w b inp f = Some (t, r)"
  shows "path_exists w (joinpath (cwd w) ''pyproject.toml'')"
proof (cases "find_marker (path_exists w) (Some (cwd w)) None")
  case None
  with assms show ?thesis by (simp add: parse_def bind_None)
next
  case (Some y)
  from find_marker_returns [OF Some] show ?thesis by simp
qed

lemma parse_total:
  assumes "path_exists w (joinpath (cwd w) ''pyproject.toml'')"
  shows "\<exists>t r. parse w b inp f = Some (Mkdir (joinpath (cwd w) ''.build'') # t, r)"
proof -
  obtain t1 r1 where lc: "load_cookies w (Some (joinpath (cwd w) ''pyproject.toml''))
            = Some (Mkdir (joinpath (cwd w) ''.build'') # t1, r1)"
    using load_cookies_shape [of w "joinpath (cwd w) ''pyproject.toml''"]
    by (auto simp: parent_joinpath)
  show ?thesis
  proof (cases r1)
    case (Inl e)
    with lc show ?thesis by (simp add: parse_found [OF assms] bind_Some_Inl)
  next
    case (Inr cs)
    obtain t2 r2 where "fetch_loop w b inp cs [0..<5] (UrlStr (build_url inp f)) [] = Some (t2, r2)"
      using fetch_loop_total by blast
    with lc Inr show ?thesis by (simp add: parse_found [OF assms] bind_Some_Inr)
  qed
qed

lemma parse_events:
  assumes p: "parse w b inp f = Some (t, r)" and e: "e \<in> set t"
  shows "e = Mkdir (joinpath (cwd w) ''.build'') \<or> e = Print cookie_message
       \<or> e = NewContext \<or> e = AddCookies [] \<or> (\<exists>u. e = Goto u)
       \<or> (\<exists>i < 5. e = Screenshot (screenshot_name i)) \<or> (\<exists>s. e = Print s)"
proof -
  have m: "path_exists w (joinpath (cwd w) ''pyproject.toml'')"
    by (rule parse_returns_marker [OF p])
  obtain t1 r1 where lc: "load_cookies w (Some (joinpath (cwd w) ''pyproject.toml''))
            = Some (Mkdir (joinpath (cwd w) ''.build'') # t1, r1)"
    and t1: "set t1 \<subseteq> {Print cookie_message}" and r1: "\<forall>cs. r1 = Inr cs \<longrightarrow> cs = []"
    using load_cookies_shape [of w "joinpath (cwd w) ''pyproject.toml''"]
    by (auto simp: parent_joinpath)
  show ?thesis
  proof (cases r1)
    case (Inl err)
    with lc p have "t = Mkdir (joinpath (cwd w) ''.build'') # t1"
      by (simp add: parse_found [OF m] bind_Some_Inl)
    with e t1 show ?thesis by auto
  next
    case (Inr cs)
    with r1 have cs: "cs = []" by simp
    from lc p Inr cs obtain t2 where
      fl: "fetch_loop w b inp [] [0..<5] (UrlStr (build_url inp f)) [] = Some (t2, r)"
      and t: "t = (Mkdir (joinpath (cwd w) ''.build'') # t1) @ t2"
      by (auto simp: parse_found [OF m] bind_Some_Inr split: option.splits)
    from e t consider "e = Mkdir (joinpath (cwd w) ''.build'')" | "e \<in> set t1" | "e \<in> set t2"
      by auto
    then show ?thesis
    proof cases
      case 1 then show ?thesis by simp
    next
      case 2 with t1 show ?thesis by auto
    next
      case 3
      from fetch_loop_events [OF fl 3] show ?thesis by auto
    qed
  qed
qed


lemma sample_marker: "path_exists sample_world (joinpath (cwd sample_world) ''pyproject.toml'')"
  by (simp add: sample_world_def)

lemma sample_absent:
  "read_json sample_world (joinpath (joinpath (cwd sample_world) ''.build'') ''cookies.json'') = Absent"
  by (simp add: sample_world_def)

text \<open>
  C7: when the cookie file is absent under the project root, \<^verbatim>\<open>parse\<close> creates the
  directory, prints the fixed message and goes on to the fetch loop with an empty cookie
  list: its outcome is that of the loop, and each browsing context gets no cookies.
\<close>

theorem absent_cookie_file_is_tolerated:
  assumes marker: "path_exists w (joinpath (cwd w) ''pyproject.toml'')"
    and absent: "read_json w (joinpath (joinpath (cwd w) ''.build'') ''cookies.json'') = Absent"
  shows "\<exists>t r. parse w b inp f
                 = Some ([Mkdir (joinpath (cwd w) ''.build''), Print cookie_message] @ t, r)
             \<and> fetch_loop w b inp [] [0..<5] (UrlStr (build_url inp f)) [] = Some (t, r)
             \<and> (\<forall>cs. AddCookies cs \<in> set t \<longrightarrow> cs = [])"
proof -
  obtain t r where fl: "fetch_loop w b inp [] [0..<5] (UrlStr (build_url inp f)) [] = Some (t, r)"
    using fetch_loop_total by blast
  have lc: "load_cookies w (Some (joinpath (cwd w) ''pyproject.toml''))
              = Some ([Mkdir (joinpath (cwd w) ''.build''), Print cookie_message], Inr [])"
    using absent load_cookies_absent [of w "joinpath (cwd w) ''pyproject.toml''"]
    by (simp add: parent_joinpath)
  have "parse w b inp f
          = Some ([Mkdir (joinpath (cwd w) ''.build''), Print cookie_message] @ t, r)"
    using fl by (simp add: parse_found [OF marker] lc bind_Some_Inr)
  moreover have "\<forall>cs. AddCookies cs \<in> set t \<longrightarrow> cs = []"
  proof (intro allI impI)
    fix cs assume "AddCookies cs \<in> set t"
    from fetch_loop_events [OF fl this] show "cs = []" by auto
  qed
  ultimately show ?thesis using fl by blast
qed

theorem absent_cookie_file_is_tolerated_witness:
  "path_exists sample_world (joinpath (cwd sample_world) ''pyproject.toml'')
   \<and> read_json sample_world
         (joinpath (joinpath (cwd sample_world) ''.build'') ''cookies.json'') = Absent
   \<and> (\<exists>t r. parse sample_world Webkit sample_input None
                 = Some ([Mkdir (joinpath (cwd sample_world) ''.build''), Print cookie_message] @ t, r)
             \<and> fetch_loop sample_world Webkit sample_input [] [0..<5]
                   (UrlStr (build_url sample_input None)) [] = Some (t, r)
             \<and> (\<forall>cs. AddCookies cs \<in> set t \<longrightarrow> cs = []))"
  using absent_cookie_file_is_tolerated [OF sample_marker sample_absent, of Webkit sample_input None]
    sample_marker sample_absent
  by simp

subsection \<open>The loop over the engines\<close>

lemma engines_loop_Nil: "engines_loop w inp [] = Some ([], Inr ())"
  by (simp add: ret_def)

lemma engine_body:
  "finally_do (bind m (\<lambda>scraped_data. bind (emit p) (\<lambda>_. write_csv inp scraped_data)))
       (emit (Close b)) =
     (case m of
        None \<Rightarrow> None
      | Some (t1, Inl e) \<Rightarrow> Some (t1 @ [Close b], Inl e)
      | Some (t1, Inr rs) \<Rightarrow>
          Some (t1 @ [p, WriteCsv (csv_name inp) (csv_of rs), Close b], Inr ()))"
proof (cases m)
  case None
  then show ?thesis by (simp add: bind_None finally_emit)
next
  case (Some a)
  obtain t1 r where a: "a = (t1, r)" by (cases a)
  show ?thesis
  proof (cases r)
    case (Inl e)
    with Some a show ?thesis by (simp add: bind_Some_Inl finally_emit)
  next
    case (Inr rs)
    with Some a show ?thesis
      by (simp add: bind_Some_Inr bind_emit write_csv_def csv_of_def emit_def finally_do_def)
  qed
qed

lemma engines_loop_Cons:
  "engines_loop w inp (b # rest) =
     (if \<not> launches w b then Some ([], Inl BrowserError)
      else case parse w b inp None of
             None \<Rightarrow> None
           | Some (t1, Inl e) \<Rightarrow> Some (Launch b # t1 @ [Close b], Inl e)
           | Some (t1, Inr rs) \<Rightarrow>
               (case engines_loop w inp rest of
                  None \<Rightarrow> None
                | Some (t2, r) \<Rightarrow>
                    Some (Launch b # t1
                            @ [Print ''Writing data to output file'',
                               WriteCsv (csv_name inp) (csv_of rs), Close b] @ t2, r)))"
proof -
  have step: "engines_loop w inp (b # rest) =
     bind (launch w b) (\<lambda>_.
     bind (case parse w b inp None of
             None \<Rightarrow> None
           | Some (t1, Inl e) \<Rightarrow> Some (t1 @ [Close b], Inl e)
           | Some (t1, Inr rs) \<Rightarrow>
               Some (t1 @ [Print ''Writing data to output file'',
                           WriteCsv (csv_name inp) (csv_of rs), Close b], Inr ()))
       (\<lambda>_. engines_loop w inp rest))"
    by (simp only: engines_loop.simps engine_body)
  show ?thesis
  proof (cases "launches w b")
    case False
    then show ?thesis by (subst step) (simp add: launch_def raise_def bind_Some_Inl)
  next
    case True
    show ?thesis
    proof (cases "parse w b inp None")
      case None
      with True show ?thesis
        by (subst step) (simp add: launch_def bind_emit bind_None)
    next
      case (Some a)
      obtain t1 r where a: "a = (t1, r)" by (cases a)
      show ?thesis
      proof (cases r)
        case (Inl e)
        with True Some a show ?thesis
          by (subst step) (simp add: launch_def bind_emit bind_Some_Inl)
      next
        case (Inr rs)
        with True Some a show ?thesis
          by (subst step) (simp add: launch_def bind_emit bind_Some_Inr split: option.splits)
      qed
    qed
  qed
qed

declare engines_loop.simps [simp del]

lemma engines_loop_total:
  assumes "path_exists w (joinpath (cwd w) ''pyproject.toml'')"
  shows "\<exists>t r. engines_loop w inp bs = Some (t, r)"
proof (induction bs)
  case Nil
  show ?case by (simp add: engines_loop_Nil)
next
  case (Cons b rest)
  from parse_total [OF assms] obtain t1 r1 where "parse w b inp None = Some (t1, r1)"
    by blast
  with Cons show ?case
    by (cases r1) (auto simp: engines_loop_Cons)
qed

lemma engines_loop_writes:
  "engines_loop w inp bs = Some (t, r) \<Longrightarrow> e \<in> set t \<Longrightarrow> is_write e \<Longrightarrow>
     e = Mkdir (joinpath (cwd w) ''.build'')
     \<or> (\<exists>i < 5. e = Screenshot (screenshot_name i))
     \<or> (\<exists>rows. e = WriteCsv (csv_name inp) rows)"
proof (induction bs arbitrary: t)
  case Nil
  then show ?case by (simp add: engines_loop_Nil)
next
  case (Cons b rest)
  show ?case
  proof (cases "launches w b")
    case False
    with Cons.prems show ?thesis by (simp add: engines_loop_Cons)
  next
    case True
    from Cons.prems(1) True obtain t1 r1 where p: "parse w b inp None = Some (t1, r1)"
      by (cases "parse w b inp None") (auto simp: engines_loop_Cons)
    have w1: "e \<in> set t1 \<Longrightarrow> ?thesis"
      using parse_events [OF p, of e] Cons.prems(3) by auto
    show ?thesis
    proof (cases r1)
      case (Inl err)
      with Cons.prems(1) True p have "t = Launch b # t1 @ [Close b]"
        by (simp add: engines_loop_Cons)
      with Cons.prems(2,3) w1 show ?thesis by auto
    next
      case (Inr rs)
      with Cons.prems(1) True p obtain t2 where
        rec: "engines_loop w inp rest = Some (t2, r)"
        and t: "t = Launch b # t1 @ [Print ''Writing data to output file'',
                               WriteCsv (csv_name inp) (csv_of rs), Close b] @ t2"
        by (auto simp: engines_loop_Cons split: option.splits)
      from Cons.prems(2) t consider "e = Launch b" | "e \<in> set t1"
        | "e \<in> set [Print ''Writing data to output file'',
                               WriteCsv (csv_name inp) (csv_of rs), Close b]"
        | "e \<in> set t2" by auto
      then show ?thesis
      proof cases
        case 1 with Cons.prems(3) show ?thesis by simp
      next
        case 2 with w1 show ?thesis by simp
      next
        case 3 with Cons.prems(3) show ?thesis by auto
      next
        case 4
        from Cons.IH [OF rec 4 Cons.prems(3)] show ?thesis .
      qed
    qed
  qed
qed


text \<open>
  C9: when the marker file is found, each call of \<^verbatim>\<open>parse\<close> first creates the directory
  \<^verbatim>\<open>.build\<close> under the project root, whatever the cookie file is; the run returns, and
  each write of the run to the file system is that directory, a screenshot
  \<^verbatim>\<open>example-0.png\<close> to \<^verbatim>\<open>example-4.png\<close> or the CSV file named after the postal code.
\<close>

theorem writes_are_confined:
  assumes "path_exists w (joinpath (cwd w) ''pyproject.toml'')"
  shows "(\<exists>t r. parse w b inp f = Some (Mkdir (joinpath (cwd w) ''.build'') # t, r))
       \<and> (\<exists>t r. parse_zillow_pages w inp = Some (t, r)
             \<and> (\<forall>e \<in> set t. is_write e \<longrightarrow>
                   e = Mkdir (joinpath (cwd w) ''.build'')
                   \<or> (\<exists>i < 5. e = Screenshot (screenshot_name i))
                   \<or> (\<exists>rows. e = WriteCsv (csv_name inp) rows)))"
proof
  show "\<exists>t r. parse w b inp f = Some (Mkdir (joinpath (cwd w) ''.build'') # t, r)"
    by (rule parse_total [OF assms])
next
  from engines_loop_total [OF assms] obtain t r where
    run: "parse_zillow_pages w inp = Some (t, r)"
    unfolding parse_zillow_pages_def by blast
  have "\<forall>e \<in> set t. is_write e \<longrightarrow>
                   e = Mkdir (joinpath (cwd w) ''.build'')
                   \<or> (\<exists>i < 5. e = Screenshot (screenshot_name i))
                   \<or> (\<exists>rows. e = WriteCsv (csv_name inp) rows)"
    using engines_loop_writes [OF run [unfolded parse_zillow_pages_def]] by blast
  with run show "\<exists>t r. parse_zillow_pages w inp = Some (t, r)
             \<and> (\<forall>e \<in> set t. is_write e \<longrightarrow>
                   e = Mkdir (joinpath (cwd w) ''.build'')
                   \<or> (\<exists>i < 5. e = Screenshot (screenshot_name i))
                   \<or> (\<exists>rows. e = WriteCsv (csv_name inp) rows))"
    by blast
qed


theorem writes_are_confined_witness:
  "path_exists sample_world (joinpath (cwd sample_world) ''pyproject.toml'')
   \<and> (\<exists>t r. parse sample_world Firefox sample_input None
                 = Some (Mkdir (joinpath (cwd sample_world) ''.build'') # t, r))
   \<and> (\<exists>t r. parse_zillow_pages sample_world sample_input = Some (t, r)
             \<and> (\<forall>e \<in> set t. is_write e \<longrightarrow>
                   e = Mkdir (joinpath (cwd sample_world) ''.build'')
                   \<or> (\<exists>i < 5. e = Screenshot (screenshot_name i))
                   \<or> (\<exists>rows. e = WriteCsv (csv_name sample_input) rows)))"
  using writes_are_confined [OF sample_marker, of Firefox sample_input None] sample_marker
  by simp

lemma csv_after_append:
  "csv_after (xs @ ys) name =
     (case csv_after ys name of Some rows \<Rightarrow> Some rows | None \<Rightarrow> csv_after xs name)"
  by (induction xs) (simp_all split: option.splits)

lemma engines_loop_complete:
  assumes "engines_loop w inp (b # rest) = Some (t, Inr u)"
  shows "\<exists>t1 rs t2. parse w b inp None = Some (t1, Inr rs)
           \<and> engines_loop w inp rest = Some (t2, Inr ())
           \<and> t = (Launch b # t1 @ [Print ''Writing data to output file''])
                  @ [WriteCsv (csv_name inp) (csv_of rs), Close b] @ t2"
  using assms
  by (auto simp: engines_loop_Cons split: if_splits option.splits sum.splits)

lemma engines_loop_suffix:
  assumes "engines_loop w inp (b # rest) = Some (t, Inr u)"
  shows "\<exists>pre t2. engines_loop w inp rest = Some (t2, Inr ()) \<and> t = pre @ t2"
proof -
  from engines_loop_complete [OF assms] obtain t1 rs t2 where
    "engines_loop w inp rest = Some (t2, Inr ())"
    and "t = ((Launch b # t1 @ [Print ''Writing data to output file''])
                  @ [WriteCsv (csv_name inp) (csv_of rs), Close b]) @ t2"
    by auto
  then show ?thesis by blast
qed


text \<open>
  C1, as the code has it: each engine opens the CSV file anew, so after a complete run
  the file holds the header and the rows of the records that the last engine, Webkit,
  gathered: the for-sale records of the five pages it fetched, in order.
\<close>

theorem csv_holds_last_engine:
  assumes "parse_zillow_pages w inp = Some (t, Inr u)"
  shows "\<exists>rs pages.
           scraped w Webkit inp = Some rs
         \<and> csv_after t (csv_name inp) = Some (csv_of rs)
         \<and> length pages = 5
         \<and> rs = concat (map (\<lambda>p. for_sale_records (search_results p)) pages)
         \<and> (\<forall>i < 5. \<exists>url. navigate w Webkit i url = Inr (pages ! i))"
proof -
  from assms have "engines_loop w inp [Chromium, Firefox, Webkit] = Some (t, Inr u)"
    by (simp add: parse_zillow_pages_def)
  from engines_loop_suffix [OF this] obtain ta where
    "engines_loop w inp [Firefox, Webkit] = Some (ta, Inr ())" and ta: "\<exists>pre. t = pre @ ta"
    by blast
  from engines_loop_suffix [OF this(1)] obtain tb where
    "engines_loop w inp [Webkit] = Some (tb, Inr ())" and tb: "\<exists>pre. ta = pre @ tb"
    by blast
  from engines_loop_complete [OF this(1)] obtain t1 rs t2 where
    p: "parse w Webkit inp None = Some (t1, Inr rs)"
    and e: "engines_loop w inp [] = Some (t2, Inr ())"
    and tc: "tb = (Launch Webkit # t1 @ [Print ''Writing data to output file''])
                  @ [WriteCsv (csv_name inp) (csv_of rs), Close Webkit] @ t2"
    by blast
  from e have "t2 = []" by (simp add: engines_loop_Nil)
  with tc have "csv_after tb (csv_name inp) = Some (csv_of rs)"
    by (simp add: csv_after_append)
  with ta tb have csv: "csv_after t (csv_name inp) = Some (csv_of rs)"
    by (auto simp: csv_after_append)
  have m: "path_exists w (joinpath (cwd w) ''pyproject.toml'')"
    by (rule parse_returns_marker [OF p])
  obtain t1' r1 where lc: "load_cookies w (Some (joinpath (cwd w) ''pyproject.toml''))
            = Some (t1', r1)"
    using load_cookies_shape [of w "joinpath (cwd w) ''pyproject.toml''"] by blast
  from p lc obtain cs t2' where
    "fetch_loop w Webkit inp cs [0..<5] (UrlStr (build_url inp None)) [] = Some (t2', Inr rs)"
    by (cases r1) (auto simp: parse_found [OF m] bind_Some_Inr bind_Some_Inl split: option.splits)
  from fetch_loop_result [OF this] obtain pages where
    "length pages = 5"
    "rs = concat (map (\<lambda>p. for_sale_records (search_results p)) pages)"
    "\<forall>j < 5. \<exists>url. navigate w Webkit ([0..<5] ! j) url = Inr (pages ! j)"
    by auto
  moreover from this(3) have "\<forall>i < 5. \<exists>url. navigate w Webkit i url = Inr (pages ! i)"
    by (metis add_0 nth_upt)
  moreover from p have "scraped w Webkit inp = Some rs"
    by (simp add: scraped_def)
  ultimately show ?thesis using csv by blast
qed

theorem csv_holds_last_engine_witness:
  "\<exists>t. parse_zillow_pages sample_world sample_input = Some (t, Inr ())
       \<and> csv_after t (csv_name sample_input) = Some (csv_of [make_record listing_b])"
proof -
  have c: "case parse_zillow_pages sample_world sample_input of
             Some (t, Inr u) \<Rightarrow> True | _ \<Rightarrow> False"
    by code_simp
  then obtain t b where tb: "parse_zillow_pages sample_world sample_input = Some (t, b)"
    by (cases "parse_zillow_pages sample_world sample_input") auto
  with c have run: "parse_zillow_pages sample_world sample_input = Some (t, Inr ())"
    by (cases b) auto
  have s: "scraped sample_world Webkit sample_input = Some [make_record listing_b]"
    by code_simp
  from csv_holds_last_engine [OF run] s run show ?thesis
    by auto
qed

text \<open>
  In the sample run Chromium and Webkit each find one listing; the file written last holds
  the record of Webkit alone, and the record of Chromium is not in it.
\<close>

theorem chromium_records_lost_counterexample:
  "final_csv sample_world sample_input = Some (csv_of [make_record listing_b])
   \<and> all_scraped sample_world sample_input
        = Some [make_record listing_a, make_record listing_b]
   \<and> writerow (make_record listing_a) \<notin> set (csv_of [make_record listing_b])"
  by code_simp

subsection \<open>The sort mode\<close>

lemma fetch_loop_sort_order:
  "fetch_loop w b (inp\<lparr>sort_order := s\<rparr>) cs is url props = fetch_loop w b inp cs is url props"
  by (induction "is" arbitrary: url props)
     (simp_all add: fetch_loop_Nil fetch_loop_Cons
        cong: option.case_cong prod.case_cong sum.case_cong)

lemma parse_sort_order:
  "parse w b (inp\<lparr>sort_order := s\<rparr>) f = parse w b inp f"
  by (simp add: parse_def build_url_def fetch_loop_sort_order)

lemma engines_loop_sort_order:
  "engines_loop w (inp\<lparr>sort_order := s\<rparr>) bs = engines_loop w inp bs"
  by (induction bs)
     (simp_all add: engines_loop_Nil engines_loop_Cons parse_sort_order csv_name_def
        cong: option.case_cong prod.case_cong sum.case_cong)

text \<open>
  C2 fails on the code: \<^verbatim>\<open>parse_zillow_pages\<close> never hands the sort mode to
  \<^verbatim>\<open>parse\<close>, so a run with \<^verbatim>\<open>newest\<close> is the run with \<^verbatim>\<open>cheapest\<close>. With
  \<^verbatim>\<open>newest\<close> on the command line, the template of line 54 would give the
  days-sorted URL, but each of the fifteen navigations of the sample run goes to the
  default URL of lines 58 to 61.
\<close>

theorem sort_mode_ignored:
  "main w [z, ''newest''] = main w [z, ''cheapest'']
   \<and> build_url sample_input (Some (sort_order sample_input))
        = ''https://www.zillow.com/homes/for_sale/90210/0_singlestory/days_sort''
   \<and> navigations (main sample_world [''90210'', sort_order sample_input])
        = Some (replicate 15 (Goto (UrlStr
            (''https://www.zillow.com/homes/for_sale/90210_rb/?fromHomePage=true''
               @ ''&shouldFireSellPageImplicitClaimGA=false&fromHomePageTab=buy ''))))"
proof -
  have "parse_zillow_pages w \<lparr>zip_code = z, sort_order = ''newest''\<rparr>
          = parse_zillow_pages w \<lparr>zip_code = z, sort_order = ''cheapest''\<rparr>"
    using engines_loop_sort_order
            [where inp = "\<lparr>zip_code = z, sort_order = ''cheapest''\<rparr>" and s = "''newest''"]
    by (simp add: parse_zillow_pages_def)
  then have "main w [z, ''newest''] = main w [z, ''cheapest'']"
    by (simp add: main_def known_sort_accepted bind_Some_Inr)
  moreover have "build_url sample_input (Some (sort_order sample_input))
        = ''https://www.zillow.com/homes/for_sale/90210/0_singlestory/days_sort''"
    by code_simp
  moreover have "navigations (main sample_world [''90210'', sort_order sample_input])
        = Some (replicate 15 (Goto (UrlStr
            (''https://www.zillow.com/homes/for_sale/90210_rb/?fromHomePage=true''
               @ ''&shouldFireSellPageImplicitClaimGA=false&fromHomePageTab=buy ''))))"
    by code_simp
  ultimately show ?thesis by blast
qed

subsection \<open>Loading a cookie entry\<close>

text \<open>
  C10 fails on the code: for the entry with the empty string as its \<^verbatim>\<open>"name"\<close>, lines 45
  and 46 store the \<^verbatim>\<open>"domain"\<close> value as the name, as for an entry with no name, but
  line 47 then raises \<^verbatim>\<open>NameError\<close> for it, as for every dictionary entry: the entry
  is never loaded, and the run stops in the first call of \<^verbatim>\<open>parse\<close>.
\<close>

theorem falsy_name_entry_is_not_loaded:
  "map_of falsy_name_cookie ''name'' = Some (JStr [])
   \<and> map_of (set_cookie_name falsy_name_cookie) ''name'' = Some (JStr ''.zillow.com'')
   \<and> load_entries (JObj cookie # rest) cookie_data_list = Some ([], Inl NameError)
   \<and> parse cookie_world Chromium sample_input None
        = Some ([Mkdir (joinpath project_dir ''.build'')], Inl NameError)
   \<and> parse_zillow_pages cookie_world sample_input
        = Some ([Launch Chromium, Mkdir (joinpath project_dir ''.build''), Close Chromium],
                Inl NameError)"
proof -
  have "map_of falsy_name_cookie ''name'' = Some (JStr [])"
    by (simp add: falsy_name_cookie_def)
  moreover have "map_of (set_cookie_name falsy_name_cookie) ''name'' = Some (JStr ''.zillow.com'')"
    by code_simp
  moreover have "load_entries (JObj cookie # rest) cookie_data_list = Some ([], Inl NameError)"
    by (simp add: load_entries_cases)
  moreover have "parse cookie_world Chromium sample_input None
        = Some ([Mkdir (joinpath project_dir ''.build'')], Inl NameError)"
    by code_simp
  moreover have "parse_zillow_pages cookie_world sample_input
        = Some ([Launch Chromium, Mkdir (joinpath project_dir ''.build''), Close Chromium],
                Inl NameError)"
    by code_simp
  ultimately show ?thesis by blast
qed

end
